theory Spec2Isabelle
  imports Complex_Main
begin

section \<open>The loader of IRIS level 2 SJI files (irispy/new_sji.py)\<close>

text \<open>
  The module has one function with logic of its own, \<open>read_iris_sji_level2_fits\<close>.
  It is embedded below statement by statement. What the libraries do (reading the FITS
  container, the unit algebra, the time parser, the array operations) is modelled only
  as far as the loader uses it:
  \<^item> an array element is a float: a finite value (a real number; integer pixels are
    finite values too), an infinity or NaN. Arithmetic on finite values is exact;
  \<^item> an array is its shape and its elements in row-major order; the auxiliary table is
    a two-dimensional array, held as its rows;
  \<^item> a header is a map from keywords to values; the column-pointer keywords of the
    extension header hold integers;
  \<^item> a point in time is a number of microseconds since 0001-01-01T00:00:00, the
    resolution and origin of Python's \<open>datetime\<close>;
  \<^item> the time parser and the two constants of \<open>iris_tools\<close> are parameters;
  \<^item> the file is one that \<open>fits.open\<close> accepts, with a primary image and a table of
    64-bit floats in the first extension.
\<close>

subsection \<open>Values, errors, arrays\<close>

datatype error = KeyError string | IndexError | ValueError | OverflowError

datatype fl = Fin real | PInf | NInf | NaN

datatype hval = HStr string | HInt int | HFloat real | HBool bool

record 'a ndarray =
  shape :: "nat list"
  elems :: "'a list"

record table =
  ncols :: nat
  rows :: "fl list list"

definition BAD_PIXEL_VALUE :: int where
  "BAD_PIXEL_VALUE = - 200"

definition BAD_PIXEL_VALUE_UNSCALED :: int where
  "BAD_PIXEL_VALUE_UNSCALED = - 32768"

text \<open>\<open>a == v\<close> for an array and an integer: elementwise, a new array. NaN and the
  infinities equal no integer.\<close>

fun fl_eq_int :: "fl \<Rightarrow> int \<Rightarrow> bool" where
  "fl_eq_int (Fin x) v = (x = of_int v)"
| "fl_eq_int PInf v = False"
| "fl_eq_int NInf v = False"
| "fl_eq_int NaN v = False"

definition eq_scalar :: "fl ndarray \<Rightarrow> int \<Rightarrow> bool ndarray" where
  "eq_scalar a v = \<lparr>shape = shape a, elems = map (\<lambda>x. fl_eq_int x v) (elems a)\<rparr>"

text \<open>The array after \<open>a[m] = v\<close> for a boolean array \<open>m\<close> of the shape of \<open>a\<close>.\<close>

definition masked_assign :: "fl ndarray \<Rightarrow> bool ndarray \<Rightarrow> int \<Rightarrow> fl ndarray" where
  "masked_assign a m v =
     \<lparr>shape = shape a,
      elems = map (\<lambda>(x, b). if b then Fin (of_int v) else x) (zip (elems a) (elems m))\<rparr>"

text \<open>\<open>a.shape[0]\<close>: a tuple index, out of range for an array of no dimension.\<close>

definition shape0 :: "'a ndarray \<Rightarrow> error + nat" where
  "shape0 a = (case shape a of [] \<Rightarrow> Inl IndexError | n # _ \<Rightarrow> Inr n)"

text \<open>\<open>t[:, j]\<close> on the two-dimensional table: the index is checked against the number
  of columns, a negative index counts from the end.\<close>

definition column :: "table \<Rightarrow> int \<Rightarrow> error + fl list" where
  "column t j =
     (let n = int (ncols t); k = (if j < 0 then n + j else j)
      in if 0 \<le> k \<and> k < n then Inr (map (\<lambda>r. r ! nat k) (rows t)) else Inl IndexError)"

text \<open>\<open>h[k]\<close> and \<open>h.get(k, d)\<close> on a header.\<close>

definition getitem :: "(string \<rightharpoonup> 'v) \<Rightarrow> string \<Rightarrow> error + 'v" where
  "getitem h k = (case h k of None \<Rightarrow> Inl (KeyError k) | Some v \<Rightarrow> Inr v)"

definition get_default :: "(string \<rightharpoonup> 'v) \<Rightarrow> string \<Rightarrow> 'v \<Rightarrow> 'v" where
  "get_default h k d = (case h k of None \<Rightarrow> d | Some v \<Rightarrow> v)"

text \<open>Python's truth value of a header value, as \<open>x if v else y\<close> tests it.\<close>

fun truthy :: "hval \<Rightarrow> bool" where
  "truthy (HStr s) = (s \<noteq> [])"
| "truthy (HInt i) = (i \<noteq> 0)"
| "truthy (HFloat x) = (x \<noteq> 0)"
| "truthy (HBool b) = b"

subsection \<open>Float arithmetic of the uncertainty\<close>

text \<open>A unit conversion multiplies by a factor; the sum adds a finite scalar;
  \<open>np.sqrt\<close> of a negative number is NaN (HOL's \<open>sqrt\<close> is odd, so the case is
  written out).\<close>

fun fl_scale :: "real \<Rightarrow> fl \<Rightarrow> fl" where
  "fl_scale c (Fin x) = Fin (c * x)"
| "fl_scale c PInf = (if 0 < c then PInf else if c < 0 then NInf else NaN)"
| "fl_scale c NInf = (if 0 < c then NInf else if c < 0 then PInf else NaN)"
| "fl_scale c NaN = NaN"

fun fl_add :: "fl \<Rightarrow> real \<Rightarrow> fl" where
  "fl_add (Fin x) c = Fin (x + c)"
| "fl_add PInf c = PInf"
| "fl_add NInf c = NInf"
| "fl_add NaN c = NaN"

fun np_sqrt :: "fl \<Rightarrow> fl" where
  "np_sqrt (Fin x) = (if x < 0 then NaN else Fin (sqrt x))"
| "np_sqrt PInf = PInf"
| "np_sqrt NInf = NaN"
| "np_sqrt NaN = NaN"

definition map_array :: "('a \<Rightarrow> 'b) \<Rightarrow> 'a ndarray \<Rightarrow> 'b ndarray" where
  "map_array g a = \<lparr>shape = shape a, elems = map g (elems a)\<rparr>"

text \<open>The two entries of \<open>iris_tools\<close> the loader reads, \<open>DN_UNIT["SJI"]\<close> and
  \<open>READOUT_NOISE["SJI"]\<close>, are not part of this module. They enter as a parameter: the
  number of photons in one data unit, and the readout noise expressed in photons.\<close>

record detector =
  dn_unit :: real
  readout_noise :: real

definition to_photon :: "detector \<Rightarrow> fl ndarray \<Rightarrow> fl ndarray" where
  "to_photon det a = map_array (fl_scale (dn_unit det)) a"

definition from_photon :: "detector \<Rightarrow> fl ndarray \<Rightarrow> fl ndarray" where
  "from_photon det a = map_array (fl_scale (1 / dn_unit det)) a"

definition add_scalar :: "fl ndarray \<Rightarrow> real \<Rightarrow> fl ndarray" where
  "add_scalar a c = map_array (\<lambda>x. fl_add x c) a"

definition derive_uncertainty :: "detector \<Rightarrow> fl ndarray \<Rightarrow> fl ndarray" where
  "derive_uncertainty det data_nan_masked =
     from_photon det
       (map_array np_sqrt (add_scalar (to_photon det data_nan_masked) ((readout_noise det)\<^sup>2)))"

subsection \<open>Time\<close>

text \<open>\<open>timedelta(seconds=s)\<close> rounds to the nearest microsecond, ties to even, and
  accepts no more than 999999999 days in either direction; \<open>datetime + timedelta\<close>
  must stay within the years 1 to 9999.\<close>

definition round_half_even :: "real \<Rightarrow> int" where
  "round_half_even x =
     (let f = \<lfloor>x\<rfloor>; r = x - of_int f
      in if r < 1 / 2 then f else if 1 / 2 < r then f + 1 else if even f then f else f + 1)"

definition us_per_day :: int where
  "us_per_day = 86400000000"

definition timedelta :: "fl \<Rightarrow> error + int" where
  "timedelta s =
     (case s of
        Fin x \<Rightarrow>
          (let us = round_half_even (x * 1000000)
           in if - 999999999 * us_per_day \<le> us \<and> us < 1000000000 * us_per_day
              then Inr us else Inl OverflowError)
      | PInf \<Rightarrow> Inl OverflowError
      | NInf \<Rightarrow> Inl OverflowError
      | NaN \<Rightarrow> Inl ValueError)"

definition datetime_add :: "int \<Rightarrow> int \<Rightarrow> error + int" where
  "datetime_add t d =
     (if 0 \<le> t + d \<and> t + d < 3652059 * us_per_day then Inr (t + d) else Inl OverflowError)"

subsection \<open>State: the file handle, the calls of the parser, the array objects\<close>

text \<open>\<open>my_file[0].data\<close> is one array object however often it is read; the loader binds
  two names to it and assigns through one of them. The arrays therefore live in a store
  and the names hold an address.\<close>

record fstate =
  handle_open :: bool
  parse_calls :: "hval list"
  arrays :: "nat \<Rightarrow> fl ndarray"

type_synonym 'a io = "fstate \<Rightarrow> (error + 'a) \<times> fstate"

definition ret :: "'a \<Rightarrow> 'a io" where
  "ret x s = (Inr x, s)"

definition lift :: "error + 'a \<Rightarrow> 'a io" where
  "lift r s = (r, s)"

definition bnd :: "'a io \<Rightarrow> ('a \<Rightarrow> 'b io) \<Rightarrow> 'b io" where
  "bnd m k s = (case m s of (Inl e, s') \<Rightarrow> (Inl e, s') | (Inr x, s') \<Rightarrow> k x s')"

primrec mapM :: "('a \<Rightarrow> 'b io) \<Rightarrow> 'a list \<Rightarrow> 'b list io" where
  "mapM g [] = ret []"
| "mapM g (x # xs) = bnd (g x) (\<lambda>y. bnd (mapM g xs) (\<lambda>ys. ret (y # ys)))"

record fitsfile =
  hdr0 :: "string \<rightharpoonup> hval"
  img :: "fl ndarray"
  hdr1 :: "string \<rightharpoonup> int"
  tab :: table

definition hdu0_data :: nat where
  "hdu0_data = 0"

definition fits_open :: "fitsfile \<Rightarrow> unit io" where
  "fits_open f s = (Inr (), s\<lparr>handle_open := True, arrays := (arrays s)(hdu0_data := img f)\<rparr>)"

definition fits_close :: "unit io" where
  "fits_close s = (Inr (), s\<lparr>handle_open := False\<rparr>)"

definition deref :: "nat \<Rightarrow> fl ndarray io" where
  "deref a s = (Inr (arrays s a), s)"

definition setitem_mask :: "nat \<Rightarrow> bool ndarray \<Rightarrow> int \<Rightarrow> unit io" where
  "setitem_mask a m v s =
     (Inr (), s\<lparr>arrays := (arrays s)(a := masked_assign (arrays s a) m v)\<rparr>)"

text \<open>A call of the time parser: the argument is recorded, the parser answers or raises.\<close>

definition parse_time :: "(hval \<Rightarrow> error + int) \<Rightarrow> hval \<Rightarrow> int io" where
  "parse_time pt v s = (pt v, s\<lparr>parse_calls := parse_calls s @ [v]\<rparr>)"

text \<open>\<open>v = h.get(k, None); v = parse_time(v) if v else None\<close>\<close>

definition optional_date :: "(hval \<Rightarrow> error + int) \<Rightarrow> (string \<rightharpoonup> hval) \<Rightarrow> string \<Rightarrow> int option io" where
  "optional_date pt h k =
     (case h k of
        None \<Rightarrow> ret None
      | Some v \<Rightarrow> if truthy v then bnd (parse_time pt v) (\<lambda>t. ret (Some t)) else ret None)"

text \<open>\<open>my_file[1].data[:, my_file[1].header[k]]\<close>: the keyword is looked up first, then
  the column is sliced.\<close>

definition table_column :: "fitsfile \<Rightarrow> string \<Rightarrow> error + fl list" where
  "table_column f k = (case getitem (hdr1 f) k of Inl e \<Rightarrow> Inl e | Inr j \<Rightarrow> column (tab f) j)"

subsection \<open>The container and the loader\<close>

text \<open>An auxiliary coordinate is an array of timestamps, a quantity (values times
  \<open>u.arcsec\<close> or \<open>u.m/u.s\<close>) or a plain array. The metadata dictionary has the ten keys of
  its literal, so it is a record. The container holds what the loader hands to the
  constructor of \<open>SJICube\<close>; the WCS object stands for the header it is built from, the
  unit for the number of photons in it. What the constructors of \<open>WCS\<close> and \<open>NDCube\<close> check
  is not part of the model.\<close>

datatype aunit = arcsec | m_per_s

datatype coord = Times "int list" | Quantity "fl list" aunit | Plain "fl list"

record meta =
  TELESCOP :: hval
  INSTRUME :: hval
  TWAVE1 :: hval
  DATE_OBS :: "int option"
  DATE_END :: "int option"
  STARTOBS :: "int option"
  ENDOBS :: "int option"
  NBFRAMES :: nat
  OBSID :: hval
  OBS_DESC :: hval

record sjicube =
  cube_data :: "fl ndarray"
  cube_wcs :: "string \<rightharpoonup> hval"
  cube_uncertainty :: "fl ndarray"
  cube_unit :: real
  cube_meta :: meta
  cube_mask :: "bool ndarray"
  cube_extra_coords :: "(string \<times> nat \<times> coord) list"

text \<open>The elements of the list comprehension of the time coordinate: per row, the
  header is read, the parser called and the offset added.\<close>

definition frame_time :: "(hval \<Rightarrow> error + int) \<Rightarrow> fitsfile \<Rightarrow> fl \<Rightarrow> int io" where
  "frame_time pt my_file s =
     bnd (lift (getitem (hdr0 my_file) ''STARTOBS'')) (\<lambda>v.
     bnd (parse_time pt v) (\<lambda>t0.
     bnd (lift (timedelta s)) (\<lambda>d.
     lift (datetime_add t0 d))))"

definition read_iris_sji_level2_fits ::
  "detector \<Rightarrow> (hval \<Rightarrow> error + int) \<Rightarrow> fitsfile \<Rightarrow> sjicube io" where
  "read_iris_sji_level2_fits det pt my_file =
     bnd (fits_open my_file) (\<lambda>_.
     let wcs = hdr0 my_file; data = hdu0_data; data_nan_masked = hdu0_data in
     bnd (deref data) (\<lambda>d.
     bnd (setitem_mask data_nan_masked (eq_scalar d BAD_PIXEL_VALUE_UNSCALED) BAD_PIXEL_VALUE) (\<lambda>_.
     bnd (deref data_nan_masked) (\<lambda>dm.
     let mask = eq_scalar dm BAD_PIXEL_VALUE_UNSCALED in
     bnd (lift (table_column my_file ''EXPTIMES'')) (\<lambda>exposure_times.
     let unit = dn_unit det in
     bnd (deref data_nan_masked) (\<lambda>dq.
     let uncertainty = derive_uncertainty det dq in
     bnd (lift (table_column my_file ''TIME'')) (\<lambda>secs.
     bnd (mapM (frame_time pt my_file) secs) (\<lambda>times.
     bnd (lift (table_column my_file ''PZTX'')) (\<lambda>pztx.
     bnd (lift (table_column my_file ''PZTY'')) (\<lambda>pzty.
     bnd (lift (table_column my_file ''XCENIX'')) (\<lambda>xcenix.
     bnd (lift (table_column my_file ''YCENIX'')) (\<lambda>ycenix.
     bnd (lift (table_column my_file ''OBS_VRIX'')) (\<lambda>obs_vrix.
     bnd (lift (table_column my_file ''OPHASEIX'')) (\<lambda>ophaseix.
     let extra_coords =
       [(''TIME'', 0, Times times), (''PZTX'', 0, Quantity pztx arcsec),
        (''PZTY'', 0, Quantity pzty arcsec), (''XCENIX'', 0, Quantity xcenix arcsec),
        (''YCENIX'', 0, Quantity ycenix arcsec), (''OBS_VRIX'', 0, Quantity obs_vrix m_per_s),
        (''OPHASEIX'', 0, Plain ophaseix), (''EXPOSURE TIME'', 0, Plain exposure_times)] in
     bnd (optional_date pt (hdr0 my_file) ''DATE_OBS'') (\<lambda>date_obs.
     bnd (optional_date pt (hdr0 my_file) ''DATE_END'') (\<lambda>date_end.
     bnd (optional_date pt (hdr0 my_file) ''STARTOBS'') (\<lambda>startobs.
     bnd (optional_date pt (hdr0 my_file) ''ENDOBS'') (\<lambda>endobs.
     bnd (deref hdu0_data) (\<lambda>d0.
     bnd (lift (shape0 d0)) (\<lambda>nbframes.
     let meta =
       \<lparr>TELESCOP = get_default (hdr0 my_file) ''TELESCOP'' (HStr ''Unknown''),
        INSTRUME = get_default (hdr0 my_file) ''INSTRUME'' (HStr ''Unknown''),
        TWAVE1 = get_default (hdr0 my_file) ''TWAVE1'' (HStr ''Unknown''),
        DATE_OBS = date_obs,
        DATE_END = date_end,
        STARTOBS = startobs,
        ENDOBS = endobs,
        NBFRAMES = nbframes,
        OBSID = get_default (hdr0 my_file) ''OBSID'' (HStr ''Unknown''),
        OBS_DESC = get_default (hdr0 my_file) ''OBS_DESC'' (HStr ''Unknown'')\<rparr> in
     bnd fits_close (\<lambda>_.
     bnd (deref data_nan_masked) (\<lambda>dr.
     ret \<lparr>cube_data = dr, cube_wcs = wcs, cube_uncertainty = uncertainty, cube_unit = unit,
          cube_meta = meta, cube_mask = mask, cube_extra_coords = extra_coords\<rparr>
     ))))))))))))))))))))))"

text \<open>The content of the primary array after the assignment of line 132: the pixels at
  the unscaled sentinel hold the scaled one. It is what both names, \<open>data\<close> and
  \<open>data_nan_masked\<close>, refer to from then on.\<close>

definition corrected :: "fl ndarray \<Rightarrow> fl ndarray" where
  "corrected a = masked_assign a (eq_scalar a BAD_PIXEL_VALUE_UNSCALED) BAD_PIXEL_VALUE"

subsection \<open>A synthetic file\<close>

text \<open>Three frames of 2 x 2 pixels, the first pixel at the unscaled sentinel, and a table
  of three rows and eight columns. The detector has 18 photons per data unit and a
  readout noise of 21.6 photons; the parser accepts any non-empty string and answers
  2014-01-01T00:00:00.\<close>

definition sji_detector :: detector where
  "sji_detector = \<lparr>dn_unit = 18, readout_noise = 108 / 5\<rparr>"

definition sample_parser :: "hval \<Rightarrow> error + int" where
  "sample_parser v =
     (case v of HStr s \<Rightarrow> if s = [] then Inl ValueError else Inr 63524217600000000
      | _ \<Rightarrow> Inl ValueError)"

definition sample_hdr1 :: "string \<rightharpoonup> int" where
  "sample_hdr1 = map_of [(''EXPTIMES'', 0), (''TIME'', 1), (''PZTX'', 2), (''PZTY'', 3),
     (''XCENIX'', 4), (''YCENIX'', 5), (''OBS_VRIX'', 6), (''OPHASEIX'', 7)]"

definition sample_tab :: table where
  "sample_tab = \<lparr>ncols = 8, rows =
     [[Fin 8, Fin 0, Fin 1, Fin 2, Fin 100, Fin (- 50), Fin 300, Fin (1 / 4)],
      [Fin 8, Fin (21 / 2), Fin 1, Fin 2, Fin 101, Fin (- 50), Fin 310, Fin (1 / 2)],
      [Fin 8, Fin 21, Fin 1, Fin 2, Fin 102, Fin (- 50), Fin 320, Fin (3 / 4)]]\<rparr>"

definition sample_img :: "fl ndarray" where
  "sample_img = \<lparr>shape = [3, 2, 2], elems =
     [Fin (- 32768), Fin 0, Fin 20, Fin 30, Fin 40, Fin 50, Fin 60, Fin 70,
      Fin 80, Fin 90, Fin 100, Fin 110]\<rparr>"

definition sample_hdr0 :: "string \<rightharpoonup> hval" where
  "sample_hdr0 = map_of [(''TELESCOP'', HStr ''IRIS''),
     (''STARTOBS'', HStr ''2014-01-01T00:00:00'')]"

definition sample_file :: fitsfile where
  "sample_file = \<lparr>hdr0 = sample_hdr0, img = sample_img, hdr1 = sample_hdr1, tab = sample_tab\<rparr>"

definition closed_state :: fstate where
  "closed_state =
     \<lparr>handle_open = False, parse_calls = [], arrays = (\<lambda>_. \<lparr>shape = [], elems = []\<rparr>)\<rparr>"



text \<open>The synthetic file without STARTOBS, with an empty STARTOBS and with an empty
  DATE_OBS.\<close>

definition no_startobs_file :: fitsfile where
  "no_startobs_file = sample_file\<lparr>hdr0 := sample_hdr0(''STARTOBS'' := None)\<rparr>"

definition empty_startobs_file :: fitsfile where
  "empty_startobs_file = sample_file\<lparr>hdr0 := sample_hdr0(''STARTOBS'' \<mapsto> HStr [])\<rparr>"

definition empty_date_obs_file :: fitsfile where
  "empty_date_obs_file = sample_file\<lparr>hdr0 := sample_hdr0(''DATE_OBS'' \<mapsto> HStr [])\<rparr>"

text \<open>The outcome of a run with a function applied to the container, if there is one.\<close>

definition map_result :: "('a \<Rightarrow> 'b) \<Rightarrow> (error + 'a) \<times> fstate \<Rightarrow> (error + 'b) \<times> fstate" where
  "map_result g r = (map_sum id g (fst r), snd r)"

definition sample_run :: "(error + sjicube) \<times> fstate" where
  "sample_run = read_iris_sji_level2_fits sji_detector sample_parser sample_file closed_state"

subsection \<open>Reading the container\<close>



subsection \<open>The uncertainty of one pixel, as the specification words it\<close>

text \<open>The square root of the data value in photons plus the square of the readout noise
  in photons, converted to the data's unit.\<close>

definition spec_uncertainty :: "detector \<Rightarrow> real \<Rightarrow> fl" where
  "spec_uncertainty det x =
     fl_scale (1 / dn_unit det) (np_sqrt (Fin (x * dn_unit det + (readout_noise det)\<^sup>2)))"

section \<open>Properties\<close>

subsection \<open>The steps of a successful call\<close>

lemma bnd_Inr:
  "bnd m k s = (Inr y, s') \<longleftrightarrow> (\<exists>x s1. m s = (Inr x, s1) \<and> k x s1 = (Inr y, s'))"
  by (auto simp: bnd_def split: prod.splits sum.splits)

lemma lift_Inr: "lift r s = (Inr x, s') \<longleftrightarrow> r = Inr x \<and> s' = s"
  by (auto simp: lift_def)

lemma ret_Inr: "ret x s = (Inr y, s') \<longleftrightarrow> y = x \<and> s' = s"
  by (auto simp: ret_def)

lemma deref_Inr: "deref a s = (Inr x, s') \<longleftrightarrow> x = arrays s a \<and> s' = s"
  by (auto simp: deref_def)

lemma fits_open_Inr:
  "fits_open f s = (Inr x, s') \<longleftrightarrow>
     s' = s\<lparr>handle_open := True, arrays := (arrays s)(hdu0_data := img f)\<rparr>"
  by (auto simp: fits_open_def)

lemma fits_close_Inr: "fits_close s = (Inr x, s') \<longleftrightarrow> s' = s\<lparr>handle_open := False\<rparr>"
  by (auto simp: fits_close_def)

lemma setitem_mask_Inr:
  "setitem_mask a m v s = (Inr x, s') \<longleftrightarrow>
     s' = s\<lparr>arrays := (arrays s)(a := masked_assign (arrays s a) m v)\<rparr>"
  by (auto simp: setitem_mask_def)

text \<open>The parser touches neither the handle nor the arrays.\<close>

lemma frame_time_state:
  "frame_time pt f x s = (r, s') \<Longrightarrow> handle_open s' = handle_open s \<and> arrays s' = arrays s"
  by (auto simp: frame_time_def bnd_def lift_def parse_time_def split: sum.splits prod.splits)

lemma mapM_frame_time_state:
  "mapM (frame_time pt f) xs s = (r, s') \<Longrightarrow>
     handle_open s' = handle_open s \<and> arrays s' = arrays s"
proof (induction xs arbitrary: s r s')
  case Nil
  then show ?case by (simp add: ret_def)
next
  case (Cons x xs)
  show ?case
  proof (cases "frame_time pt f x s")
    case (Pair a s1)
    note st1 = frame_time_state [OF Pair]
    show ?thesis
    proof (cases a)
      case (Inl e)
      with Pair Cons.prems st1 show ?thesis by (simp add: bnd_def)
    next
      case (Inr y)
      show ?thesis
      proof (cases "mapM (frame_time pt f) xs s1")
        case (Pair b s2)
        note st2 = Cons.IH [OF Pair]
        from Cons.prems \<open>frame_time pt f x s = (a, s1)\<close> Inr Pair st1 st2 show ?thesis
          by (auto simp: bnd_def ret_def split: sum.splits)
      qed
    qed
  qed
qed

lemma optional_date_state:
  "optional_date pt h k s = (r, s') \<Longrightarrow>
     handle_open s' = handle_open s \<and> arrays s' = arrays s"
  by (auto simp: optional_date_def ret_def bnd_def parse_time_def
      split: option.splits if_splits sum.splits)

text \<open>A call that returns a container went through every step; the container and the
  final state are then the following.\<close>

lemma load_success:
  assumes "read_iris_sji_level2_fits det pt f s = (Inr c, s')"
  shows "\<exists>exposure_times secs times pztx pzty xcenix ycenix obs_vrix ophaseix
           date_obs date_end startobs endobs nbframes s1 s2 s3 s4 s5.
      table_column f ''EXPTIMES'' = Inr exposure_times \<and>
      table_column f ''TIME'' = Inr secs \<and>
      mapM (frame_time pt f) secs
         (s\<lparr>handle_open := True, arrays := (arrays s)(hdu0_data := corrected (img f))\<rparr>)
        = (Inr times, s1) \<and>
      table_column f ''PZTX'' = Inr pztx \<and>
      table_column f ''PZTY'' = Inr pzty \<and>
      table_column f ''XCENIX'' = Inr xcenix \<and>
      table_column f ''YCENIX'' = Inr ycenix \<and>
      table_column f ''OBS_VRIX'' = Inr obs_vrix \<and>
      table_column f ''OPHASEIX'' = Inr ophaseix \<and>
      optional_date pt (hdr0 f) ''DATE_OBS'' s1 = (Inr date_obs, s2) \<and>
      optional_date pt (hdr0 f) ''DATE_END'' s2 = (Inr date_end, s3) \<and>
      optional_date pt (hdr0 f) ''STARTOBS'' s3 = (Inr startobs, s4) \<and>
      optional_date pt (hdr0 f) ''ENDOBS'' s4 = (Inr endobs, s5) \<and>
      shape0 (corrected (img f)) = Inr nbframes \<and>
      s' = s5\<lparr>handle_open := False\<rparr> \<and>
      c = \<lparr>cube_data = corrected (img f), cube_wcs = hdr0 f,
           cube_uncertainty = derive_uncertainty det (corrected (img f)),
           cube_unit = dn_unit det,
           cube_meta = \<lparr>TELESCOP = get_default (hdr0 f) ''TELESCOP'' (HStr ''Unknown''),
              INSTRUME = get_default (hdr0 f) ''INSTRUME'' (HStr ''Unknown''),
              TWAVE1 = get_default (hdr0 f) ''TWAVE1'' (HStr ''Unknown''),
              DATE_OBS = date_obs, DATE_END = date_end, STARTOBS = startobs, ENDOBS = endobs,
              NBFRAMES = nbframes,
              OBSID = get_default (hdr0 f) ''OBSID'' (HStr ''Unknown''),
              OBS_DESC = get_default (hdr0 f) ''OBS_DESC'' (HStr ''Unknown'')\<rparr>,
           cube_mask = eq_scalar (corrected (img f)) BAD_PIXEL_VALUE_UNSCALED,
           cube_extra_coords =
             [(''TIME'', 0, Times times), (''PZTX'', 0, Quantity pztx arcsec),
              (''PZTY'', 0, Quantity pzty arcsec), (''XCENIX'', 0, Quantity xcenix arcsec),
              (''YCENIX'', 0, Quantity ycenix arcsec),
              (''OBS_VRIX'', 0, Quantity obs_vrix m_per_s),
              (''OPHASEIX'', 0, Plain ophaseix), (''EXPOSURE TIME'', 0, Plain exposure_times)]\<rparr>"
proof -
  from assms obtain exposure_times secs times pztx pzty xcenix ycenix obs_vrix ophaseix
           date_obs date_end startobs endobs nbframes s1 s2 s3 s4 s5
    where a: "table_column f ''EXPTIMES'' = Inr exposure_times"
      "table_column f ''TIME'' = Inr secs"
      "mapM (frame_time pt f) secs
         (s\<lparr>handle_open := True, arrays := (arrays s)(hdu0_data := corrected (img f))\<rparr>)
        = (Inr times, s1)"
      "table_column f ''PZTX'' = Inr pztx"
      "table_column f ''PZTY'' = Inr pzty"
      "table_column f ''XCENIX'' = Inr xcenix"
      "table_column f ''YCENIX'' = Inr ycenix"
      "table_column f ''OBS_VRIX'' = Inr obs_vrix"
      "table_column f ''OPHASEIX'' = Inr ophaseix"
      "optional_date pt (hdr0 f) ''DATE_OBS'' s1 = (Inr date_obs, s2)"
      "optional_date pt (hdr0 f) ''DATE_END'' s2 = (Inr date_end, s3)"
      "optional_date pt (hdr0 f) ''STARTOBS'' s3 = (Inr startobs, s4)"
      "optional_date pt (hdr0 f) ''ENDOBS'' s4 = (Inr endobs, s5)"
      "shape0 (arrays s5 hdu0_data) = Inr nbframes"
      "s' = s5\<lparr>handle_open := False\<rparr>"
      "c = \<lparr>cube_data = arrays s5 hdu0_data, cube_wcs = hdr0 f,
           cube_uncertainty = derive_uncertainty det (corrected (img f)),
           cube_unit = dn_unit det,
           cube_meta = \<lparr>TELESCOP = get_default (hdr0 f) ''TELESCOP'' (HStr ''Unknown''),
              INSTRUME = get_default (hdr0 f) ''INSTRUME'' (HStr ''Unknown''),
              TWAVE1 = get_default (hdr0 f) ''TWAVE1'' (HStr ''Unknown''),
              DATE_OBS = date_obs, DATE_END = date_end, STARTOBS = startobs, ENDOBS = endobs,
              NBFRAMES = nbframes,
              OBSID = get_default (hdr0 f) ''OBSID'' (HStr ''Unknown''),
              OBS_DESC = get_default (hdr0 f) ''OBS_DESC'' (HStr ''Unknown'')\<rparr>,
           cube_mask = eq_scalar (corrected (img f)) BAD_PIXEL_VALUE_UNSCALED,
           cube_extra_coords =
             [(''TIME'', 0, Times times), (''PZTX'', 0, Quantity pztx arcsec),
              (''PZTY'', 0, Quantity pzty arcsec), (''XCENIX'', 0, Quantity xcenix arcsec),
              (''YCENIX'', 0, Quantity ycenix arcsec),
              (''OBS_VRIX'', 0, Quantity obs_vrix m_per_s),
              (''OPHASEIX'', 0, Plain ophaseix), (''EXPOSURE TIME'', 0, Plain exposure_times)]\<rparr>"
    unfolding read_iris_sji_level2_fits_def Let_def corrected_def
    by (simp only: bnd_Inr lift_Inr ret_Inr deref_Inr fits_open_Inr fits_close_Inr
          setitem_mask_Inr)
       (clarsimp simp: hdu0_data_def)
  have "arrays s5 hdu0_data = corrected (img f)"
    using mapM_frame_time_state [OF a(3)] optional_date_state [OF a(10)]
      optional_date_state [OF a(11)] optional_date_state [OF a(12)]
      optional_date_state [OF a(13)]
    by simp
  with a show ?thesis by simp
qed

lemma load_data: "read_iris_sji_level2_fits det pt f s = (Inr c, s') \<Longrightarrow>
    cube_data c = corrected (img f)"
  by (drule load_success) auto

lemma load_mask: "read_iris_sji_level2_fits det pt f s = (Inr c, s') \<Longrightarrow>
    cube_mask c = eq_scalar (corrected (img f)) BAD_PIXEL_VALUE_UNSCALED"
  by (drule load_success) auto

lemma load_uncertainty: "read_iris_sji_level2_fits det pt f s = (Inr c, s') \<Longrightarrow>
    cube_uncertainty c = derive_uncertainty det (corrected (img f))"
  by (drule load_success) auto

lemma elems_corrected:
  "elems (corrected a) =
     map (\<lambda>x. if x = Fin (- 32768) then Fin (- 200) else x) (elems a)"
proof -
  have "fl_eq_int x (- 32768) \<longleftrightarrow> x = Fin (- 32768)" for x
    by (cases x) auto
  then show ?thesis
    by (simp add: corrected_def masked_assign_def eq_scalar_def BAD_PIXEL_VALUE_def
        BAD_PIXEL_VALUE_UNSCALED_def zip_map2 zip_same_conv_map o_def)
qed

lemma shape_corrected: "shape (corrected a) = shape a"
  by (simp add: corrected_def masked_assign_def)

subsection \<open>The synthetic file loads\<close>

lemmas monad_defs = bnd_def ret_def lift_def deref_def fits_open_def fits_close_def
  setitem_mask_def parse_time_def

lemmas sample_defs = sji_detector_def sample_parser_def sample_hdr0_def sample_hdr1_def
  sample_tab_def sample_img_def sample_file_def closed_state_def

lemmas loader_defs = read_iris_sji_level2_fits_def frame_time_def optional_date_def
  table_column_def getitem_def get_default_def column_def shape0_def timedelta_def
  datetime_add_def us_per_day_def hdu0_data_def eq_scalar_def masked_assign_def
  BAD_PIXEL_VALUE_def BAD_PIXEL_VALUE_UNSCALED_def

lemma round_half_even_sample:
  "round_half_even 0 = 0" "round_half_even 10500000 = 10500000"
  "round_half_even 21000000 = 21000000"
  by (simp_all add: round_half_even_def)

lemma sample_loads:
  "\<exists>c s. read_iris_sji_level2_fits sji_detector sample_parser sample_file closed_state
            = (Inr c, s)"
  by (simp add: loader_defs monad_defs sample_defs round_half_even_sample
      derive_uncertainty_def)

subsection \<open>Bad pixels in the data\<close>

text \<open>
  C2. After a load, the data array has the shape of the input image; every pixel that
  held the unscaled sentinel -32768 holds the scaled sentinel -200, and every other
  pixel holds its original value.
\<close>

theorem data_sentinel_rewritten:
  assumes "read_iris_sji_level2_fits det pt f s = (Inr c, s')"
  shows "shape (cube_data c) = shape (img f) \<and>
         length (elems (cube_data c)) = length (elems (img f)) \<and>
         (\<forall>i < length (elems (img f)).
            elems (cube_data c) ! i =
              (if elems (img f) ! i = Fin (of_int BAD_PIXEL_VALUE_UNSCALED)
               then Fin (of_int BAD_PIXEL_VALUE) else elems (img f) ! i))"
  using load_data [OF assms]
  by (simp add: elems_corrected shape_corrected BAD_PIXEL_VALUE_def
      BAD_PIXEL_VALUE_UNSCALED_def)

theorem data_sentinel_rewritten_witness:
  "\<exists>c s. read_iris_sji_level2_fits sji_detector sample_parser sample_file closed_state
            = (Inr c, s)
     \<and> shape (cube_data c) = [3, 2, 2]
     \<and> elems (cube_data c) ! 0 = Fin (- 200) \<and> elems (cube_data c) ! 1 = Fin 0"
proof -
  from sample_loads obtain c s
    where l: "read_iris_sji_level2_fits sji_detector sample_parser sample_file closed_state
                = (Inr c, s)"
    by blast
  from data_sentinel_rewritten [OF l]
  have "shape (cube_data c) = [3, 2, 2]"
    and "elems (cube_data c) ! 0 = Fin (- 200)"
    and "elems (cube_data c) ! 1 = Fin 0"
    by (simp_all add: sample_file_def sample_img_def BAD_PIXEL_VALUE_def
        BAD_PIXEL_VALUE_UNSCALED_def)
  with l show ?thesis by blast
qed

subsection \<open>Bad pixels in the mask\<close>

text \<open>The mask is compared with the unscaled sentinel after the assignment went through
  the one array both names refer to: no pixel holds the unscaled sentinel any more.\<close>

lemma mask_never_set:
  assumes "read_iris_sji_level2_fits det pt f s = (Inr c, s')"
  shows "shape (cube_mask c) = shape (img f) \<and> (\<forall>b \<in> set (elems (cube_mask c)). \<not> b)"
proof -
  have "\<not> fl_eq_int (if x = Fin (- 32768) then Fin (- 200) else x) (- 32768)" for x
    by (cases x) auto
  then show ?thesis
    using load_mask [OF assms]
    by (auto simp add: eq_scalar_def elems_corrected shape_corrected
        BAD_PIXEL_VALUE_UNSCALED_def)
qed

text \<open>
  C1. Every pixel that held the unscaled sentinel is flagged in the mask. On the synthetic
  file the loader returns, the first pixel held the unscaled sentinel and holds the scaled
  one in the data, and the mask is False at all twelve pixels.
\<close>

theorem mask_misses_sentinel:
  "\<not> isl (fst sample_run) \<and>
   elems (img sample_file) ! 0 = Fin (of_int BAD_PIXEL_VALUE_UNSCALED) \<and>
   elems (cube_data (projr (fst sample_run))) ! 0 = Fin (of_int BAD_PIXEL_VALUE) \<and>
   elems (cube_mask (projr (fst sample_run))) = replicate 12 False"
  by (simp add: sample_run_def loader_defs monad_defs sample_defs round_half_even_sample
      derive_uncertainty_def eval_nat_numeral)

subsection \<open>The uncertainty\<close>

lemma elems_derive_uncertainty:
  "elems (derive_uncertainty det a) =
     map (\<lambda>d. fl_scale (1 / dn_unit det)
                 (np_sqrt (fl_add (fl_scale (dn_unit det) d) ((readout_noise det)\<^sup>2))))
       (elems a)"
  by (simp add: derive_uncertainty_def from_photon_def to_photon_def add_scalar_def
      map_array_def o_def)

lemma shape_derive_uncertainty: "shape (derive_uncertainty det a) = shape a"
  by (simp add: derive_uncertainty_def from_photon_def to_photon_def add_scalar_def
      map_array_def)

lemma sqrt_sample: "sqrt (11664 / 25) = 108 / 5"
  by (rule real_sqrt_unique) (simp_all add: power2_eq_square)

text \<open>
  C3. The uncertainty array is computed pixel by pixel from the returned, bad-pixel-corrected
  data: at a pixel of finite value it is the formula of the specification applied to that
  value; in particular a pixel that held the unscaled sentinel gets the formula's value
  at -200.
\<close>

theorem uncertainty_formula:
  assumes "read_iris_sji_level2_fits det pt f s = (Inr c, s')"
  shows "shape (cube_uncertainty c) = shape (cube_data c) \<and>
         length (elems (cube_uncertainty c)) = length (elems (cube_data c)) \<and>
         (\<forall>i < length (elems (cube_data c)). \<forall>x.
            elems (cube_data c) ! i = Fin x \<longrightarrow>
            elems (cube_uncertainty c) ! i = spec_uncertainty det x) \<and>
         (\<forall>i < length (elems (img f)).
            elems (img f) ! i = Fin (of_int BAD_PIXEL_VALUE_UNSCALED) \<longrightarrow>
            elems (cube_uncertainty c) ! i = spec_uncertainty det (of_int BAD_PIXEL_VALUE))"
  using load_data [OF assms] load_uncertainty [OF assms]
  by (simp add: elems_derive_uncertainty shape_derive_uncertainty spec_uncertainty_def
      elems_corrected BAD_PIXEL_VALUE_def BAD_PIXEL_VALUE_UNSCALED_def mult.commute)

theorem uncertainty_formula_witness:
  "\<exists>c s. read_iris_sji_level2_fits sji_detector sample_parser sample_file closed_state
            = (Inr c, s)
     \<and> elems (cube_data c) ! 1 = Fin 0
     \<and> elems (cube_uncertainty c) ! 1 = Fin (6 / 5)"
proof -
  from sample_loads obtain c s
    where l: "read_iris_sji_level2_fits sji_detector sample_parser sample_file closed_state
                = (Inr c, s)"
    by blast
  have d: "length (elems (cube_data c)) = 12" "elems (cube_data c) ! 1 = Fin 0"
    using load_data [OF l] by (simp_all add: elems_corrected sample_file_def sample_img_def)
  from uncertainty_formula [OF l] d
  have "elems (cube_uncertainty c) ! 1 = spec_uncertainty sji_detector 0"
    by simp
  then have "elems (cube_uncertainty c) ! 1 = Fin (6 / 5)"
    by (simp add: spec_uncertainty_def sji_detector_def power2_eq_square sqrt_sample)
  with l d show ?thesis by blast
qed




subsection \<open>Columns and per-frame times\<close>

lemma table_column_length:
  "table_column f k = Inr xs \<Longrightarrow> length xs = length (rows (tab f))"
  by (auto simp: table_column_def getitem_def column_def Let_def
      split: option.splits if_splits)

lemma frame_time_Inr:
  "frame_time pt f x s = (Inr t, s') \<Longrightarrow>
     \<exists>v t0 y. hdr0 f ''STARTOBS'' = Some v \<and> pt v = Inr t0 \<and> x = Fin y \<and>
       t = t0 + round_half_even (y * 1000000)"
  by (auto simp: frame_time_def bnd_def lift_def parse_time_def getitem_def timedelta_def
      datetime_add_def Let_def split: sum.splits prod.splits option.splits fl.splits if_splits)

lemma mapM_Inr_Cons:
  "mapM g (x # xs) s = (Inr ys, s') \<longleftrightarrow>
     (\<exists>y zs s1. g x s = (Inr y, s1) \<and> mapM g xs s1 = (Inr zs, s') \<and> ys = y # zs)"
  by (auto simp: bnd_Inr ret_Inr)

lemma mapM_frame_time_values:
  "mapM (frame_time pt f) xs s = (Inr ts, s') \<Longrightarrow>
     list_all2 (\<lambda>x t. \<exists>v t0 y. hdr0 f ''STARTOBS'' = Some v \<and> pt v = Inr t0 \<and> x = Fin y \<and>
       t = t0 + round_half_even (y * 1000000)) xs ts"
proof (induction xs arbitrary: s ts)
  case Nil
  then show ?case by (simp add: ret_def)
next
  case (Cons x xs)
  from Cons.prems obtain y zs s1 where
    a: "frame_time pt f x s = (Inr y, s1)" "mapM (frame_time pt f) xs s1 = (Inr zs, s')"
      "ts = y # zs"
    unfolding mapM_Inr_Cons by blast
  from frame_time_Inr [OF a(1)] Cons.IH [OF a(2)] a(3) show ?case
    by simp
qed



subsection \<open>Parts of the returned container\<close>

lemma load_extra_coords:
  "read_iris_sji_level2_fits det pt f s = (Inr c, s') \<Longrightarrow>
   \<exists>exposure_times secs times pztx pzty xcenix ycenix obs_vrix ophaseix s1.
      table_column f ''EXPTIMES'' = Inr exposure_times \<and>
      table_column f ''TIME'' = Inr secs \<and>
      mapM (frame_time pt f) secs
         (s\<lparr>handle_open := True, arrays := (arrays s)(hdu0_data := corrected (img f))\<rparr>)
        = (Inr times, s1) \<and>
      table_column f ''PZTX'' = Inr pztx \<and>
      table_column f ''PZTY'' = Inr pzty \<and>
      table_column f ''XCENIX'' = Inr xcenix \<and>
      table_column f ''YCENIX'' = Inr ycenix \<and>
      table_column f ''OBS_VRIX'' = Inr obs_vrix \<and>
      table_column f ''OPHASEIX'' = Inr ophaseix \<and>
      cube_extra_coords c =
             [(''TIME'', 0, Times times), (''PZTX'', 0, Quantity pztx arcsec),
              (''PZTY'', 0, Quantity pzty arcsec), (''XCENIX'', 0, Quantity xcenix arcsec),
              (''YCENIX'', 0, Quantity ycenix arcsec),
              (''OBS_VRIX'', 0, Quantity obs_vrix m_per_s),
              (''OPHASEIX'', 0, Plain ophaseix), (''EXPOSURE TIME'', 0, Plain exposure_times)]"
  by (drule load_success) (elim exE conjE, simp)

lemma load_meta:
  "read_iris_sji_level2_fits det pt f s = (Inr c, s') \<Longrightarrow>
   \<exists>date_obs date_end startobs endobs nbframes s1 s2 s3 s4 s5.
      optional_date pt (hdr0 f) ''DATE_OBS'' s1 = (Inr date_obs, s2) \<and>
      optional_date pt (hdr0 f) ''DATE_END'' s2 = (Inr date_end, s3) \<and>
      optional_date pt (hdr0 f) ''STARTOBS'' s3 = (Inr startobs, s4) \<and>
      optional_date pt (hdr0 f) ''ENDOBS'' s4 = (Inr endobs, s5) \<and>
      shape0 (corrected (img f)) = Inr nbframes \<and>
      cube_meta c = \<lparr>TELESCOP = get_default (hdr0 f) ''TELESCOP'' (HStr ''Unknown''),
              INSTRUME = get_default (hdr0 f) ''INSTRUME'' (HStr ''Unknown''),
              TWAVE1 = get_default (hdr0 f) ''TWAVE1'' (HStr ''Unknown''),
              DATE_OBS = date_obs, DATE_END = date_end, STARTOBS = startobs, ENDOBS = endobs,
              NBFRAMES = nbframes,
              OBSID = get_default (hdr0 f) ''OBSID'' (HStr ''Unknown''),
              OBS_DESC = get_default (hdr0 f) ''OBS_DESC'' (HStr ''Unknown'')\<rparr>"
  by (drule load_success) (elim exE conjE, simp, blast)


subsection \<open>Frame count and lengths of the auxiliary coordinates\<close>



subsection \<open>Per-frame timestamps\<close>




subsection \<open>The list of auxiliary coordinates\<close>

text \<open>
  C9, as stated: the list of auxiliary coordinates has seven entries. On the synthetic
  file it has eight: the exposure times follow the seven named columns.
\<close>

theorem extra_coords_count_eight:
  "\<not> isl (fst sample_run) \<and> length (cube_extra_coords (projr (fst sample_run))) = 8"
  by (simp add: sample_run_def loader_defs monad_defs sample_defs round_half_even_sample
      derive_uncertainty_def)

text \<open>
  C9, amended. The container gets eight auxiliary coordinates, all on axis 0: the
  timestamps, PZTX, PZTY, XCENIX and YCENIX in arcsec, OBS_VRIX in m/s, and OPHASEIX and
  the exposure times as plain arrays with no unit attached; each is the table column its
  header keyword points to.
\<close>

theorem extra_coords_entries:
  assumes "read_iris_sji_level2_fits det pt f s = (Inr c, s')"
  shows "\<exists>times pztx pzty xcenix ycenix obs_vrix ophaseix exposure_times.
      table_column f ''PZTX'' = Inr pztx \<and>
      table_column f ''PZTY'' = Inr pzty \<and>
      table_column f ''XCENIX'' = Inr xcenix \<and>
      table_column f ''YCENIX'' = Inr ycenix \<and>
      table_column f ''OBS_VRIX'' = Inr obs_vrix \<and>
      table_column f ''OPHASEIX'' = Inr ophaseix \<and>
      table_column f ''EXPTIMES'' = Inr exposure_times \<and>
      cube_extra_coords c =
             [(''TIME'', 0, Times times), (''PZTX'', 0, Quantity pztx arcsec),
              (''PZTY'', 0, Quantity pzty arcsec), (''XCENIX'', 0, Quantity xcenix arcsec),
              (''YCENIX'', 0, Quantity ycenix arcsec),
              (''OBS_VRIX'', 0, Quantity obs_vrix m_per_s),
              (''OPHASEIX'', 0, Plain ophaseix), (''EXPOSURE TIME'', 0, Plain exposure_times)]"
  using load_extra_coords [OF assms] by blast

theorem extra_coords_entries_witness:
  "\<exists>c s times. read_iris_sji_level2_fits sji_detector sample_parser sample_file closed_state
            = (Inr c, s)
     \<and> cube_extra_coords c =
             [(''TIME'', 0, Times times), (''PZTX'', 0, Quantity [Fin 1, Fin 1, Fin 1] arcsec),
              (''PZTY'', 0, Quantity [Fin 2, Fin 2, Fin 2] arcsec),
              (''XCENIX'', 0, Quantity [Fin 100, Fin 101, Fin 102] arcsec),
              (''YCENIX'', 0, Quantity [Fin (- 50), Fin (- 50), Fin (- 50)] arcsec),
              (''OBS_VRIX'', 0, Quantity [Fin 300, Fin 310, Fin 320] m_per_s),
              (''OPHASEIX'', 0, Plain [Fin (1 / 4), Fin (1 / 2), Fin (3 / 4)]),
              (''EXPOSURE TIME'', 0, Plain [Fin 8, Fin 8, Fin 8])]"
proof -
  from sample_loads obtain c s
    where l: "read_iris_sji_level2_fits sji_detector sample_parser sample_file closed_state
                = (Inr c, s)"
    by blast
  have cols: "table_column sample_file ''PZTX'' = Inr [Fin 1, Fin 1, Fin 1]"
    "table_column sample_file ''PZTY'' = Inr [Fin 2, Fin 2, Fin 2]"
    "table_column sample_file ''XCENIX'' = Inr [Fin 100, Fin 101, Fin 102]"
    "table_column sample_file ''YCENIX'' = Inr [Fin (- 50), Fin (- 50), Fin (- 50)]"
    "table_column sample_file ''OBS_VRIX'' = Inr [Fin 300, Fin 310, Fin 320]"
    "table_column sample_file ''OPHASEIX'' = Inr [Fin (1 / 4), Fin (1 / 2), Fin (3 / 4)]"
    "table_column sample_file ''EXPTIMES'' = Inr [Fin 8, Fin 8, Fin 8]"
    by (simp_all add: table_column_def getitem_def column_def sample_defs)
  from extra_coords_entries [OF l] show ?thesis
    unfolding cols using l by auto
qed

subsection \<open>The file handle\<close>










subsection \<open>Runs on files that differ in the primary header\<close>

lemma map_result_bnd: "map_result g (bnd m k s) = bnd m (\<lambda>x t. map_result g (k x t)) s"
  by (auto simp: map_result_def bnd_def split: prod.splits sum.splits)

lemma map_result_ret: "map_result g (ret x s) = ret (g x) s"
  by (simp add: map_result_def ret_def)

lemma table_column_cong:
  "hdr1 f' = hdr1 f \<Longrightarrow> tab f' = tab f \<Longrightarrow> table_column f' k = table_column f k"
  by (simp add: table_column_def split: sum.splits)

lemma frame_time_cong:
  "hdr0 f' ''STARTOBS'' = hdr0 f ''STARTOBS'' \<Longrightarrow> frame_time pt f' = frame_time pt f"
  by (rule ext) (simp add: frame_time_def getitem_def)

lemma fits_open_cong: "img f' = img f \<Longrightarrow> fits_open f' = fits_open f"
  by (rule ext) (simp add: fits_open_def)

lemma load_cong:
  assumes "img f' = img f" "hdr1 f' = hdr1 f" "tab f' = tab f"
    and "hdr0 f' ''STARTOBS'' = hdr0 f ''STARTOBS''"
    and "optional_date pt (hdr0 f') ''DATE_OBS'' = optional_date pt (hdr0 f) ''DATE_OBS''"
    and "optional_date pt (hdr0 f') ''DATE_END'' = optional_date pt (hdr0 f) ''DATE_END''"
    and "optional_date pt (hdr0 f') ''STARTOBS'' = optional_date pt (hdr0 f) ''STARTOBS''"
    and "optional_date pt (hdr0 f') ''ENDOBS'' = optional_date pt (hdr0 f) ''ENDOBS''"
    and "get_default (hdr0 f') ''TELESCOP'' (HStr ''Unknown'') =
         get_default (hdr0 f) ''TELESCOP'' (HStr ''Unknown'')"
    and "get_default (hdr0 f') ''INSTRUME'' (HStr ''Unknown'') =
         get_default (hdr0 f) ''INSTRUME'' (HStr ''Unknown'')"
    and "get_default (hdr0 f') ''TWAVE1'' (HStr ''Unknown'') =
         get_default (hdr0 f) ''TWAVE1'' (HStr ''Unknown'')"
    and "get_default (hdr0 f') ''OBSID'' (HStr ''Unknown'') =
         get_default (hdr0 f) ''OBSID'' (HStr ''Unknown'')"
    and "get_default (hdr0 f') ''OBS_DESC'' (HStr ''Unknown'') =
         get_default (hdr0 f) ''OBS_DESC'' (HStr ''Unknown'')"
  shows "read_iris_sji_level2_fits det pt f' s =
         map_result (\<lambda>c. c\<lparr>cube_wcs := hdr0 f'\<rparr>) (read_iris_sji_level2_fits det pt f s)"
  unfolding read_iris_sji_level2_fits_def Let_def
  by (simp add: map_result_bnd map_result_ret assms(5-13) fits_open_cong [OF assms(1)]
      table_column_cong [OF assms(2,3)] frame_time_cong [OF assms(4)])

lemma optional_date_empty:
  "h k = Some (HStr []) \<Longrightarrow> optional_date pt h k = ret None"
  by (rule ext) (simp add: optional_date_def)

lemma optional_date_absent:
  "h k = None \<Longrightarrow> optional_date pt h k = ret None"
  by (rule ext) (simp add: optional_date_def)

lemma optional_date_cong:
  "h' k = h k \<Longrightarrow> optional_date pt h' k = optional_date pt h k"
  by (rule ext) (simp add: optional_date_def)

lemma get_default_cong: "h' k = h k \<Longrightarrow> get_default h' k d = get_default h k d"
  by (simp add: get_default_def)

subsection \<open>Empty date fields\<close>

text \<open>
  C10, as stated: an empty STARTOBS is treated as an absent one and does not reach the
  parser. On the synthetic file with an empty STARTOBS the parser is called with the empty
  string (and refuses it); without STARTOBS the call raises the KeyError and the parser
  is never called.
\<close>

theorem empty_startobs_reaches_parser:
  "fst (read_iris_sji_level2_fits sji_detector sample_parser empty_startobs_file closed_state)
     = Inl ValueError \<and>
   parse_calls
     (snd (read_iris_sji_level2_fits sji_detector sample_parser empty_startobs_file
        closed_state)) = [HStr []] \<and>
   fst (read_iris_sji_level2_fits sji_detector sample_parser no_startobs_file closed_state)
     = Inl (KeyError ''STARTOBS'') \<and>
   parse_calls
     (snd (read_iris_sji_level2_fits sji_detector sample_parser no_startobs_file
        closed_state)) = []"
  by (simp add: empty_startobs_file_def no_startobs_file_def loader_defs monad_defs
      sample_defs round_half_even_sample derive_uncertainty_def)

text \<open>
  C10, amended. When DATE_OBS, DATE_END or ENDOBS is present and holds the empty string,
  the statement that reads it yields None without calling the parser, and the whole run is
  the run on the file without that field (the header handed to the WCS apart).
\<close>

theorem empty_date_as_absent:
  assumes "k \<in> {''DATE_OBS'', ''DATE_END'', ''ENDOBS''}" and "hdr0 f k = Some (HStr [])"
  shows "optional_date pt (hdr0 f) k s = (Inr None, s) \<and>
         read_iris_sji_level2_fits det pt (f\<lparr>hdr0 := (hdr0 f)(k := None)\<rparr>) s =
           map_result (\<lambda>c. c\<lparr>cube_wcs := (hdr0 f)(k := None)\<rparr>)
             (read_iris_sji_level2_fits det pt f s)"
proof
  show "optional_date pt (hdr0 f) k s = (Inr None, s)"
    using assms(2) by (simp add: optional_date_empty ret_def)
next
  let ?f' = "f\<lparr>hdr0 := (hdr0 f)(k := None)\<rparr>"
  let ?h' = "(hdr0 f)(k := None)"
  have d: "optional_date pt ?h' k' = optional_date pt (hdr0 f) k'" for k'
  proof (cases "k' = k")
    case True
    with assms(2) show ?thesis
      by (simp add: optional_date_empty optional_date_absent)
  next
    case False
    then show ?thesis
      by (intro optional_date_cong) simp
  qed
  have g: "get_default ?h' k' (HStr ''Unknown'') = get_default (hdr0 f) k' (HStr ''Unknown'')"
    if "k' \<notin> {''DATE_OBS'', ''DATE_END'', ''ENDOBS''}" for k'
    using that assms(1) by (intro get_default_cong) auto
  have st: "?h' ''STARTOBS'' = hdr0 f ''STARTOBS''"
    using assms(1) by auto
  have "read_iris_sji_level2_fits det pt ?f' s =
        map_result (\<lambda>c. c\<lparr>cube_wcs := hdr0 ?f'\<rparr>) (read_iris_sji_level2_fits det pt f s)"
    by (rule load_cong) (simp_all add: d g st del: fun_upd_apply)
  then show "read_iris_sji_level2_fits det pt ?f' s =
           map_result (\<lambda>c. c\<lparr>cube_wcs := (hdr0 f)(k := None)\<rparr>)
             (read_iris_sji_level2_fits det pt f s)"
    by simp
qed

theorem empty_date_as_absent_witness:
  "''DATE_OBS'' \<in> {''DATE_OBS'', ''DATE_END'', ''ENDOBS''} \<and>
   hdr0 empty_date_obs_file ''DATE_OBS'' = Some (HStr []) \<and>
   optional_date sample_parser (hdr0 empty_date_obs_file) ''DATE_OBS'' closed_state
     = (Inr None, closed_state) \<and>
   read_iris_sji_level2_fits sji_detector sample_parser
      (empty_date_obs_file\<lparr>hdr0 := (hdr0 empty_date_obs_file)(''DATE_OBS'' := None)\<rparr>)
      closed_state =
     map_result (\<lambda>c. c\<lparr>cube_wcs := (hdr0 empty_date_obs_file)(''DATE_OBS'' := None)\<rparr>)
       (read_iris_sji_level2_fits sji_detector sample_parser empty_date_obs_file closed_state)"
proof -
  have a: "''DATE_OBS'' \<in> {''DATE_OBS'', ''DATE_END'', ''ENDOBS''}"
    by simp
  have b: "hdr0 empty_date_obs_file ''DATE_OBS'' = Some (HStr [])"
    by (simp add: empty_date_obs_file_def)
  from empty_date_as_absent [OF a b] a b show ?thesis
    by blast
qed

subsection \<open>Optional header fields\<close>

lemma optional_date_total:
  assumes "optional_date pt h k s = (Inr d, s')" and "h' k = h k \<or> h' k = None"
  shows "\<exists>d' t'. optional_date pt h' k t = (Inr d', t')"
proof (cases "h' k")
  case None
  then show ?thesis
    by (simp add: optional_date_def ret_def)
next
  case (Some v)
  with assms(2) have hk: "h k = Some v"
    by auto
  show ?thesis
  proof (cases "truthy v")
    case False
    with Some show ?thesis
      by (simp add: optional_date_def ret_def)
  next
    case True
    with assms(1) hk obtain t0 where "pt v = Inr t0"
      by (cases "pt v") (auto simp: optional_date_def bnd_def parse_time_def ret_def)
    with Some True show ?thesis
      by (simp add: optional_date_def bnd_def parse_time_def ret_def)
  qed
qed

lemma load_intro:
  assumes "table_column f ''EXPTIMES'' = Inr exposure_times"
    and "table_column f ''TIME'' = Inr secs"
    and "mapM (frame_time pt f) secs
         (s\<lparr>handle_open := True, arrays := (arrays s)(hdu0_data := corrected (img f))\<rparr>)
        = (Inr ts, s1)"
    and "table_column f ''PZTX'' = Inr pztx"
    and "table_column f ''PZTY'' = Inr pzty"
    and "table_column f ''XCENIX'' = Inr xcenix"
    and "table_column f ''YCENIX'' = Inr ycenix"
    and "table_column f ''OBS_VRIX'' = Inr obs_vrix"
    and "table_column f ''OPHASEIX'' = Inr ophaseix"
    and "optional_date pt (hdr0 f) ''DATE_OBS'' s1 = (Inr date_obs, s2)"
    and "optional_date pt (hdr0 f) ''DATE_END'' s2 = (Inr date_end, s3)"
    and "optional_date pt (hdr0 f) ''STARTOBS'' s3 = (Inr startobs, s4)"
    and "optional_date pt (hdr0 f) ''ENDOBS'' s4 = (Inr endobs, s5)"
    and "shape0 (corrected (img f)) = Inr nbframes"
  shows "\<exists>c s'. read_iris_sji_level2_fits det pt f s = (Inr c, s')"
proof -
  have "arrays s5 hdu0_data = corrected (img f)"
    using mapM_frame_time_state [OF assms(3)] optional_date_state [OF assms(10)]
      optional_date_state [OF assms(11)] optional_date_state [OF assms(12)]
      optional_date_state [OF assms(13)]
    by simp
  with assms show ?thesis
    unfolding read_iris_sji_level2_fits_def Let_def corrected_def
    by (simp only: bnd_Inr lift_Inr ret_Inr deref_Inr fits_open_Inr fits_close_Inr
          setitem_mask_Inr)
       (simp add: hdu0_data_def)
qed

lemma load_without_field:
  assumes "read_iris_sji_level2_fits det pt f s = (Inr c, s')"
    and "k \<noteq> ''STARTOBS''"
  shows "\<exists>c' t. read_iris_sji_level2_fits det pt (f\<lparr>hdr0 := (hdr0 f)(k := None)\<rparr>) s
           = (Inr c', t)"
proof -
  let ?h' = "(hdr0 f)(k := None)"
  let ?f' = "f\<lparr>hdr0 := ?h'\<rparr>"
  from load_success [OF assms(1)] obtain exposure_times secs ts pztx pzty xcenix ycenix
      obs_vrix ophaseix date_obs date_end startobs endobs nbframes s1 s2 s3 s4 s5
    where a: "table_column f ''EXPTIMES'' = Inr exposure_times"
      "table_column f ''TIME'' = Inr secs"
      "mapM (frame_time pt f) secs
         (s\<lparr>handle_open := True, arrays := (arrays s)(hdu0_data := corrected (img f))\<rparr>)
        = (Inr ts, s1)"
      "table_column f ''PZTX'' = Inr pztx"
      "table_column f ''PZTY'' = Inr pzty"
      "table_column f ''XCENIX'' = Inr xcenix"
      "table_column f ''YCENIX'' = Inr ycenix"
      "table_column f ''OBS_VRIX'' = Inr obs_vrix"
      "table_column f ''OPHASEIX'' = Inr ophaseix"
      "optional_date pt (hdr0 f) ''DATE_OBS'' s1 = (Inr date_obs, s2)"
      "optional_date pt (hdr0 f) ''DATE_END'' s2 = (Inr date_end, s3)"
      "optional_date pt (hdr0 f) ''STARTOBS'' s3 = (Inr startobs, s4)"
      "optional_date pt (hdr0 f) ''ENDOBS'' s4 = (Inr endobs, s5)"
      "shape0 (corrected (img f)) = Inr nbframes"
    by blast
  have w: "?h' k' = hdr0 f k' \<or> ?h' k' = None" for k'
    by simp
  have col: "table_column ?f' k' = table_column f k'" for k'
    by (rule table_column_cong) simp_all
  have ft: "frame_time pt ?f' = frame_time pt f"
    using assms(2) by (intro frame_time_cong) simp
  from optional_date_total [where h' = "(hdr0 f)(k := None)", OF a(10) w] obtain d1 t2
    where d1: "optional_date pt ?h' ''DATE_OBS'' s1 = (Inr d1, t2)"
    by blast
  from optional_date_total [where h' = "(hdr0 f)(k := None)", OF a(11) w] obtain d2 t3
    where d2: "optional_date pt ?h' ''DATE_END'' t2 = (Inr d2, t3)"
    by blast
  from optional_date_total [where h' = "(hdr0 f)(k := None)", OF a(12) w] obtain d3 t4
    where d3: "optional_date pt ?h' ''STARTOBS'' t3 = (Inr d3, t4)"
    by blast
  from optional_date_total [where h' = "(hdr0 f)(k := None)", OF a(13) w] obtain d4 t5
    where d4: "optional_date pt ?h' ''ENDOBS'' t4 = (Inr d4, t5)"
    by blast
  show ?thesis
  proof (rule load_intro)
    show "table_column ?f' ''EXPTIMES'' = Inr exposure_times"
      using a(1) by (simp only: col)
    show "table_column ?f' ''TIME'' = Inr secs"
      using a(2) by (simp only: col)
    show "mapM (frame_time pt ?f') secs
         (s\<lparr>handle_open := True, arrays := (arrays s)(hdu0_data := corrected (img ?f'))\<rparr>)
        = (Inr ts, s1)"
      using a(3) by (simp add: ft)
    show "table_column ?f' ''PZTX'' = Inr pztx"
      using a(4) by (simp only: col)
    show "table_column ?f' ''PZTY'' = Inr pzty"
      using a(5) by (simp only: col)
    show "table_column ?f' ''XCENIX'' = Inr xcenix"
      using a(6) by (simp only: col)
    show "table_column ?f' ''YCENIX'' = Inr ycenix"
      using a(7) by (simp only: col)
    show "table_column ?f' ''OBS_VRIX'' = Inr obs_vrix"
      using a(8) by (simp only: col)
    show "table_column ?f' ''OPHASEIX'' = Inr ophaseix"
      using a(9) by (simp only: col)
    show "optional_date pt (hdr0 ?f') ''DATE_OBS'' s1 = (Inr d1, t2)"
      using d1 by simp
    show "optional_date pt (hdr0 ?f') ''DATE_END'' t2 = (Inr d2, t3)"
      using d2 by simp
    show "optional_date pt (hdr0 ?f') ''STARTOBS'' t3 = (Inr d3, t4)"
      using d3 by simp
    show "optional_date pt (hdr0 ?f') ''ENDOBS'' t4 = (Inr d4, t5)"
      using d4 by simp
    show "shape0 (corrected (img ?f')) = Inr nbframes"
      using a(14) by simp
  qed
qed

lemma load_absent_dates:
  assumes "read_iris_sji_level2_fits det pt f s = (Inr c, s')"
  shows "(hdr0 f ''DATE_OBS'' = None \<longrightarrow> DATE_OBS (cube_meta c) = None) \<and>
         (hdr0 f ''DATE_END'' = None \<longrightarrow> DATE_END (cube_meta c) = None) \<and>
         (hdr0 f ''STARTOBS'' = None \<longrightarrow> STARTOBS (cube_meta c) = None) \<and>
         (hdr0 f ''ENDOBS'' = None \<longrightarrow> ENDOBS (cube_meta c) = None)"
  using load_meta [OF assms]
  by (auto simp: optional_date_absent ret_def)

lemma load_absent_scalars:
  assumes "read_iris_sji_level2_fits det pt f s = (Inr c, s')"
  shows "(hdr0 f ''TELESCOP'' = None \<longrightarrow> TELESCOP (cube_meta c) = HStr ''Unknown'') \<and>
         (hdr0 f ''INSTRUME'' = None \<longrightarrow> INSTRUME (cube_meta c) = HStr ''Unknown'') \<and>
         (hdr0 f ''TWAVE1'' = None \<longrightarrow> TWAVE1 (cube_meta c) = HStr ''Unknown'') \<and>
         (hdr0 f ''OBSID'' = None \<longrightarrow> OBSID (cube_meta c) = HStr ''Unknown'') \<and>
         (hdr0 f ''OBS_DESC'' = None \<longrightarrow> OBS_DESC (cube_meta c) = HStr ''Unknown'')"
  using load_meta [OF assms]
  by (auto simp: get_default_def)

lemma load_needs_startobs:
  assumes "read_iris_sji_level2_fits det pt f s = (Inr c, s')" and "rows (tab f) \<noteq> []"
  shows "hdr0 f ''STARTOBS'' \<noteq> None"
proof -
  from load_extra_coords [OF assms(1)] obtain secs ts s1
    where a: "table_column f ''TIME'' = Inr secs"
      "mapM (frame_time pt f) secs
         (s\<lparr>handle_open := True, arrays := (arrays s)(hdu0_data := corrected (img f))\<rparr>)
        = (Inr ts, s1)"
    by blast
  from table_column_length [OF a(1)] assms(2) have "0 < length secs"
    by simp
  with list_all2_nthD [OF mapM_frame_time_values [OF a(2)], of 0] show ?thesis
    by auto
qed

text \<open>
  C5, as stated: a file without STARTOBS loads. The synthetic file loads; the same file
  without STARTOBS raises the KeyError in the derivation of the per-frame times.
\<close>

theorem missing_startobs_raises:
  "\<not> isl (fst sample_run) \<and>
   fst (read_iris_sji_level2_fits sji_detector sample_parser no_startobs_file closed_state)
     = Inl (KeyError ''STARTOBS'')"
  by (simp add: sample_run_def no_startobs_file_def loader_defs monad_defs sample_defs
      round_half_even_sample derive_uncertainty_def)

text \<open>
  C5, amended. A file that loads still loads when TELESCOP, INSTRUME, TWAVE1, OBSID,
  OBS_DESC, DATE_OBS, DATE_END or ENDOBS is taken out of its primary header. In the
  metadata of a loaded file every absent scalar field is "Unknown" and every absent date
  field is None. STARTOBS is present in every loaded file whose table has a row.
\<close>

theorem optional_fields_default:
  assumes "read_iris_sji_level2_fits det pt f s = (Inr c, s')"
  shows "(\<forall>k \<in> {''TELESCOP'', ''INSTRUME'', ''TWAVE1'', ''OBSID'', ''OBS_DESC'',
                ''DATE_OBS'', ''DATE_END'', ''ENDOBS''}.
            \<exists>c' t. read_iris_sji_level2_fits det pt (f\<lparr>hdr0 := (hdr0 f)(k := None)\<rparr>) s
                     = (Inr c', t)) \<and>
         (hdr0 f ''TELESCOP'' = None \<longrightarrow> TELESCOP (cube_meta c) = HStr ''Unknown'') \<and>
         (hdr0 f ''INSTRUME'' = None \<longrightarrow> INSTRUME (cube_meta c) = HStr ''Unknown'') \<and>
         (hdr0 f ''TWAVE1'' = None \<longrightarrow> TWAVE1 (cube_meta c) = HStr ''Unknown'') \<and>
         (hdr0 f ''OBSID'' = None \<longrightarrow> OBSID (cube_meta c) = HStr ''Unknown'') \<and>
         (hdr0 f ''OBS_DESC'' = None \<longrightarrow> OBS_DESC (cube_meta c) = HStr ''Unknown'') \<and>
         (hdr0 f ''DATE_OBS'' = None \<longrightarrow> DATE_OBS (cube_meta c) = None) \<and>
         (hdr0 f ''DATE_END'' = None \<longrightarrow> DATE_END (cube_meta c) = None) \<and>
         (hdr0 f ''STARTOBS'' = None \<longrightarrow> STARTOBS (cube_meta c) = None) \<and>
         (hdr0 f ''ENDOBS'' = None \<longrightarrow> ENDOBS (cube_meta c) = None) \<and>
         (rows (tab f) \<noteq> [] \<longrightarrow> hdr0 f ''STARTOBS'' \<noteq> None)"
proof -
  have "\<exists>c' t. read_iris_sji_level2_fits det pt (f\<lparr>hdr0 := (hdr0 f)(k := None)\<rparr>) s
                     = (Inr c', t)"
    if "k \<in> {''TELESCOP'', ''INSTRUME'', ''TWAVE1'', ''OBSID'', ''OBS_DESC'',
                ''DATE_OBS'', ''DATE_END'', ''ENDOBS''}" for k
  proof -
    from that have "k \<noteq> ''STARTOBS''"
      by auto
    with assms show ?thesis
      by (rule load_without_field)
  qed
  with load_absent_scalars [OF assms] load_absent_dates [OF assms]
    load_needs_startobs [OF assms]
  show ?thesis
    by blast
qed

theorem optional_fields_default_witness:
  "\<exists>c s. read_iris_sji_level2_fits sji_detector sample_parser sample_file closed_state
            = (Inr c, s) \<and>
     hdr0 sample_file ''INSTRUME'' = None \<and> INSTRUME (cube_meta c) = HStr ''Unknown'' \<and>
     hdr0 sample_file ''DATE_OBS'' = None \<and> DATE_OBS (cube_meta c) = None \<and>
     (\<exists>c' t. read_iris_sji_level2_fits sji_detector sample_parser
               (sample_file\<lparr>hdr0 := (hdr0 sample_file)(''TELESCOP'' := None)\<rparr>) closed_state
             = (Inr c', t)) \<and>
     rows (tab sample_file) \<noteq> [] \<and> hdr0 sample_file ''STARTOBS'' \<noteq> None"
proof -
  from sample_loads obtain c s
    where l: "read_iris_sji_level2_fits sji_detector sample_parser sample_file closed_state
                = (Inr c, s)"
    by blast
  have h: "hdr0 sample_file ''INSTRUME'' = None" "hdr0 sample_file ''DATE_OBS'' = None"
    "rows (tab sample_file) \<noteq> []"
    by (simp_all add: sample_file_def sample_hdr0_def sample_tab_def)
  note t = optional_fields_default [OF l]
  from t h have "INSTRUME (cube_meta c) = HStr ''Unknown''"
    and "DATE_OBS (cube_meta c) = None" and "hdr0 sample_file ''STARTOBS'' \<noteq> None"
    by blast+
  moreover from t have "\<exists>c' t. read_iris_sji_level2_fits sji_detector sample_parser
               (sample_file\<lparr>hdr0 := (hdr0 sample_file)(''TELESCOP'' := None)\<rparr>) closed_state
             = (Inr c', t)"
    by blast
  ultimately show ?thesis
    using l h by blast
qed

end
